theory Spec2Isabelle
  imports Complex_Main
begin

section \<open>Isometric projection\<close>

text \<open>
  The pages compute with JavaScript numbers, which are IEEE 754 doubles. Two models of
  the projection are kept. The first is over exact reals: it states the arithmetic the
  code writes down, and serves the value equations. The second, \<open>isoPosition_double\<close>
  below, is over doubles with rounding, overflow and underflow: it serves the statements
  that depend on how large or small the tile dimensions may be. Grid coordinates are
  integers, embedded with \<open>of_int\<close>.
\<close>










section \<open>The projection in double arithmetic\<close>











section \<open>Sprite-sheet slicing\<close>

text \<open>
  The sheet branch of the load effect of \<^verbatim>\<open>FloorLab\<close>, after the image has arrived:
  \<^verbatim>\<open>
  const cols = Math.floor(base.width / frameSize);
  const rows = Math.floor(base.height / frameSize);
  if (!cols || !rows) {
    throw new Error(
      `Frame size ${frameSize}px does not evenly divide sheet (${base.width}x${base.height}).`);
  }
  const list: Texture[] = [];
  for (let y = 0; y < rows; y++) {
    for (let x = 0; x < cols; x++) {
      const rect = new Rectangle(x * frameSize, y * frameSize, frameSize, frameSize);
      list.push(new Texture({ source: base.source, frame: rect }));
    }
  }
  setTextures(list);
  \<close>
  Pixel dimensions and the frame size are natural numbers here, so \<open>Math.floor (a / b)\<close>
  is \<open>a div b\<close> for \<open>b > 0\<close>. Every texture of the list shares the source, so a texture
  is modelled by its frame rectangle. The thrown \<open>Error\<close> is a value carrying the three
  numbers of its message.
\<close>

datatype rectangle =
  Rectangle (rect_x: nat) (rect_y: nat) (rect_width: nat) (rect_height: nat)

datatype slice_error =
  NotEvenlyDivide nat nat nat
    \<comment> \<open>frame size, sheet width, sheet height: "Frame size .. does not evenly divide sheet (..)"\<close>

text \<open>The inner loop over \<open>x\<close>, pushing onto \<open>list\<close>.\<close>

function slice_cols :: "nat \<Rightarrow> nat \<Rightarrow> nat \<Rightarrow> nat \<Rightarrow> rectangle list \<Rightarrow> rectangle list" where
  "slice_cols frameSize cols y x list =
     (if x < cols
      then slice_cols frameSize cols y (x + 1)
             (list @ [Rectangle (x * frameSize) (y * frameSize) frameSize frameSize])
      else list)"
  by pat_completeness auto
termination
  by (relation "measure (\<lambda>(frameSize, cols, y, x, list). cols - x)") auto

declare slice_cols.simps [simp del]

text \<open>The outer loop over \<open>y\<close>.\<close>

function slice_rows :: "nat \<Rightarrow> nat \<Rightarrow> nat \<Rightarrow> nat \<Rightarrow> rectangle list \<Rightarrow> rectangle list" where
  "slice_rows frameSize cols rows y list =
     (if y < rows
      then slice_rows frameSize cols rows (y + 1) (slice_cols frameSize cols y 0 list)
      else list)"
  by pat_completeness auto
termination
  by (relation "measure (\<lambda>(frameSize, cols, rows, y, list). rows - y)") auto

declare slice_rows.simps [simp del]

text \<open>
  The result is \<open>None\<close> when the code does not return, \<open>Some (Inl e)\<close> when it throws and
  \<open>Some (Inr list)\<close> when it sets the textures. With \<open>frameSize = 0\<close> JavaScript
  divides by zero: a positive dimension gives \<open>Infinity\<close> columns or rows, which pass the
  check \<open>!cols || !rows\<close> and the loops never end, while a zero dimension gives \<open>NaN\<close>,
  which is falsy, so the code throws.
\<close>

definition slice :: "nat \<Rightarrow> nat \<Rightarrow> nat \<Rightarrow> (slice_error + rectangle list) option" where
  "slice width height frameSize =
     (if frameSize = 0 then
        (if width = 0 \<or> height = 0
         then Some (Inl (NotEvenlyDivide frameSize width height))
         else None)
      else
        (let cols = width div frameSize;
             rows = height div frameSize
         in if cols = 0 \<or> rows = 0
            then Some (Inl (NotEvenlyDivide frameSize width height))
            else Some (Inr (slice_rows frameSize cols rows 0 []))))"

section \<open>Grid enumeration\<close>

text \<open>
  \<^verbatim>\<open>FloorLab\<close>:
  \<^verbatim>\<open>
  const coords: { row: number; col: number }[] = [];
  for (let r = 0; r < rows; r++) {
    for (let c = 0; c < cols; c++) coords.push({ row: r, col: c });
  }
  return coords;
  \<close>
  A cell \<open>{row, col}\<close> is the pair \<open>(row, col)\<close>.
\<close>

function grid_cols :: "nat \<Rightarrow> nat \<Rightarrow> nat \<Rightarrow> (nat \<times> nat) list \<Rightarrow> (nat \<times> nat) list" where
  "grid_cols cols r c coords =
     (if c < cols then grid_cols cols r (c + 1) (coords @ [(r, c)]) else coords)"
  by pat_completeness auto
termination
  by (relation "measure (\<lambda>(cols, r, c, coords). cols - c)") auto

declare grid_cols.simps [simp del]

function grid_rows :: "nat \<Rightarrow> nat \<Rightarrow> nat \<Rightarrow> (nat \<times> nat) list \<Rightarrow> (nat \<times> nat) list" where
  "grid_rows rows cols r coords =
     (if r < rows then grid_rows rows cols (r + 1) (grid_cols cols r 0 coords) else coords)"
  by pat_completeness auto
termination
  by (relation "measure (\<lambda>(rows, cols, r, coords). rows - r)") auto

declare grid_rows.simps [simp del]

definition grid :: "nat \<Rightarrow> nat \<Rightarrow> (nat \<times> nat) list" where
  "grid rows cols = grid_rows rows cols 0 []"

text \<open>
  \<^verbatim>\<open>GameRoom\<close> has the same loops with both bounds fixed:
  \<^verbatim>\<open>
  const items: { x: number; y: number }[] = [];
  for (let i = 0; i < 16; i++) {
    for (let j = 0; j < 16; j++) {
      items.push({ x: i, y: j });
    }
  }
  return items;
  \<close>
  An item \<open>{x, y}\<close> is the pair \<open>(x, y)\<close>.
\<close>

function room_inner :: "nat \<Rightarrow> nat \<Rightarrow> (nat \<times> nat) list \<Rightarrow> (nat \<times> nat) list" where
  "room_inner i j items =
     (if j < 16 then room_inner i (j + 1) (items @ [(i, j)]) else items)"
  by pat_completeness auto
termination
  by (relation "measure (\<lambda>(i, j, items). 16 - j)") auto

declare room_inner.simps [simp del]

function room_outer :: "nat \<Rightarrow> (nat \<times> nat) list \<Rightarrow> (nat \<times> nat) list" where
  "room_outer i items =
     (if i < 16 then room_outer (i + 1) (room_inner i 0 items) else items)"
  by pat_completeness auto
termination
  by (relation "measure (\<lambda>(i, items). 16 - i)") auto

declare room_outer.simps [simp del]

definition room_grid :: "(nat \<times> nat) list" where
  "room_grid = room_outer 0 []"

section \<open>Active frame selection\<close>

text \<open>
  \<^verbatim>\<open>FloorLab\<close>:
  \<^verbatim>\<open>
  const activeTexture = useMemo(() => {
    if (!textures.length) return null;
    if (mode === "sheet") {
      const index = Math.max(0, Math.min(frameIndex, textures.length - 1));
      return textures[index];
    }
    return textures[0];
  }, [textures, frameIndex, mode]);
  \<close>
  Reading a JavaScript array outside its range does not fail, it gives \<open>undefined\<close>;
  \<open>array_get\<close> keeps that case apart from \<open>null\<close> and from a texture. The frame index
  is an integer here.
\<close>

datatype mode = Sheet | Tile | Cuboid

datatype 'a js_value = Null | Undefined | Value 'a

definition array_get :: "'a list \<Rightarrow> int \<Rightarrow> 'a js_value" where
  "array_get xs i = (if 0 \<le> i \<and> i < int (length xs) then Value (xs ! nat i) else Undefined)"

definition activeTexture :: "mode \<Rightarrow> 'a list \<Rightarrow> int \<Rightarrow> 'a js_value" where
  "activeTexture m textures frameIndex =
     (if length textures = 0 then Null
      else if m = Sheet then
        (let index = max 0 (min frameIndex (int (length textures) - 1))
         in array_get textures index)
      else array_get textures 0)"

section \<open>Wave animation of a tile\<close>

text \<open>
  \<^verbatim>\<open>GrassBlock\<close> in \<^verbatim>\<open>app/game/page.tsx\<close>:
  \<^verbatim>\<open>
  const [elevation, setElevation] = useState(0);
  const timeRef = useRef(0);
  const animateRef = useRef(animate);

  useEffect(() => {
    animateRef.current = animate;
    if (!animate) setElevation(0);
  }, [animate]);

  const tick = useCallback(() => {
    // advance a simple time accumulator each frame (approx.)
    if (!animateRef.current) return;
    timeRef.current += 0.1; // tune speed
    setElevation(16 * Math.cos(timeRef.current - x));
  }, [x]);
  \<close>
  The state of one tile is the three cells the component owns. The effect runs when the
  \<open>animate\<close> prop changes: \<open>Enable\<close> is the change to true, \<open>Disable\<close> the change to
  false. Each event is applied atomically. The effect also runs once after mounting, with
  the initial prop; on the initial state it changes nothing (\<open>mount_effect\<close> below).
\<close>

record grass_block =
  elevation :: real
  timeRef :: real
  animateRef :: bool

definition mount :: "bool \<Rightarrow> grass_block" where
  "mount animate = \<lparr>elevation = 0, timeRef = 0, animateRef = animate\<rparr>"

definition animate_effect :: "bool \<Rightarrow> grass_block \<Rightarrow> grass_block" where
  "animate_effect animate s =
     (let s1 = s\<lparr>animateRef := animate\<rparr>
      in if \<not> animate then s1\<lparr>elevation := 0\<rparr> else s1)"

definition tick :: "real \<Rightarrow> grass_block \<Rightarrow> grass_block" where
  "tick x s =
     (if \<not> animateRef s then s
      else (let s1 = s\<lparr>timeRef := timeRef s + 0.1\<rparr>
            in s1\<lparr>elevation := 16 * cos (timeRef s1 - x)\<rparr>))"

datatype event = Enable | Disable | Tick

fun step :: "real \<Rightarrow> grass_block \<Rightarrow> event \<Rightarrow> grass_block" where
  "step x s Enable = animate_effect True s"
| "step x s Disable = animate_effect False s"
| "step x s Tick = tick x s"

definition run :: "real \<Rightarrow> grass_block \<Rightarrow> event list \<Rightarrow> grass_block" where
  "run x s events = foldl (step x) s events"

text \<open>
  The property of a tile that the events keep: whenever animation is off, the tile is
  drawn at its resting height.
\<close>

definition idle_flat :: "grass_block \<Rightarrow> bool" where
  "idle_flat s = (animateRef s \<or> elevation s = 0)"

section \<open>The loops as list expressions\<close>

lemma row_major_concat:
  "concat (map (\<lambda>r. map (f r) [0..<cols]) [0..<rows]) =
   map (\<lambda>i. f (i div cols) (i mod cols)) [0..<rows * cols]"
proof (induction rows)
  case 0
  show ?case by simp
next
  case (Suc rows)
  have last_row: "map (\<lambda>i. f (i div cols) (i mod cols)) [rows * cols..<rows * cols + cols] =
        map (f rows) [0..<cols]"
    by (rule nth_equalityI) simp_all
  have "Suc rows * cols = rows * cols + cols"
    by simp
  then have split: "[0..<Suc rows * cols] = [0..<rows * cols] @ [rows * cols..<rows * cols + cols]"
    by (simp only: upt_add_eq_append [OF le0])
  have "concat (map (\<lambda>r. map (f r) [0..<cols]) [0..<Suc rows]) =
        concat (map (\<lambda>r. map (f r) [0..<cols]) [0..<rows]) @ map (f rows) [0..<cols]"
    by simp
  also have "\<dots> = map (\<lambda>i. f (i div cols) (i mod cols)) [0..<rows * cols] @
                   map (\<lambda>i. f (i div cols) (i mod cols)) [rows * cols..<rows * cols + cols]"
    by (simp only: Suc.IH last_row)
  also have "\<dots> = map (\<lambda>i. f (i div cols) (i mod cols)) [0..<Suc rows * cols]"
    by (simp only: split map_append)
  finally show ?case .
qed

lemma slice_cols_eq:
  "slice_cols frameSize cols y x list =
   list @ map (\<lambda>x. Rectangle (x * frameSize) (y * frameSize) frameSize frameSize) [x..<cols]"
proof (induction frameSize cols y x list rule: slice_cols.induct)
  case (1 frameSize cols y x list)
  show ?case
  proof (cases "x < cols")
    case True
    then show ?thesis
      using "1.IH" by (subst slice_cols.simps) (simp add: upt_conv_Cons)
  next
    case False
    then show ?thesis
      by (subst slice_cols.simps) simp
  qed
qed

lemma slice_rows_eq:
  "slice_rows frameSize cols rows y list =
   list @ concat (map (\<lambda>y. map (\<lambda>x. Rectangle (x * frameSize) (y * frameSize) frameSize frameSize)
                               [0..<cols]) [y..<rows])"
proof (induction frameSize cols rows y list rule: slice_rows.induct)
  case (1 frameSize cols rows y list)
  show ?case
  proof (cases "y < rows")
    case True
    then show ?thesis
      using "1.IH" by (subst slice_rows.simps) (simp add: upt_conv_Cons slice_cols_eq)
  next
    case False
    then show ?thesis
      by (subst slice_rows.simps) simp
  qed
qed

lemma slice_rows_row_major:
  "slice_rows frameSize cols rows 0 [] =
   map (\<lambda>i. Rectangle (i mod cols * frameSize) (i div cols * frameSize) frameSize frameSize)
     [0..<rows * cols]"
  by (simp add: slice_rows_eq row_major_concat)

lemma slice_success:
  assumes "0 < frameSize" "frameSize \<le> width" "frameSize \<le> height"
  shows "slice width height frameSize =
     Some (Inr (map (\<lambda>i. Rectangle (i mod (width div frameSize) * frameSize)
                              (i div (width div frameSize) * frameSize) frameSize frameSize)
                  [0..<(height div frameSize) * (width div frameSize)]))"
proof -
  have "width div frameSize \<noteq> 0" "height div frameSize \<noteq> 0"
    using assms by (simp_all add: div_eq_0_iff)
  then show ?thesis
    using assms(1) by (simp add: slice_def Let_def slice_rows_row_major)
qed


lemma row_major_index:
  assumes "row < rows" and "col < cols"
  shows "row * cols + col < rows * (cols::nat)"
proof -
  have "row * cols + col < row * cols + cols"
    using assms(2) by simp
  also have "\<dots> = Suc row * cols"
    by simp
  also have "\<dots> \<le> rows * cols"
    using assms(1) by (intro mult_le_mono1) simp
  finally show ?thesis .
qed

lemma grid_cols_eq:
  "grid_cols cols r c coords = coords @ map (\<lambda>c. (r, c)) [c..<cols]"
proof (induction cols r c coords rule: grid_cols.induct)
  case (1 cols r c coords)
  show ?case
  proof (cases "c < cols")
    case True
    then show ?thesis
      using "1.IH" by (subst grid_cols.simps) (simp add: upt_conv_Cons)
  next
    case False
    then show ?thesis
      by (subst grid_cols.simps) simp
  qed
qed

lemma grid_rows_eq:
  "grid_rows rows cols r coords =
   coords @ concat (map (\<lambda>r. map (\<lambda>c. (r, c)) [0..<cols]) [r..<rows])"
proof (induction rows cols r coords rule: grid_rows.induct)
  case (1 rows cols r coords)
  show ?case
  proof (cases "r < rows")
    case True
    then show ?thesis
      using "1.IH" by (subst grid_rows.simps) (simp add: upt_conv_Cons grid_cols_eq)
  next
    case False
    then show ?thesis
      by (subst grid_rows.simps) simp
  qed
qed

lemma grid_row_major:
  "grid rows cols = map (\<lambda>i. (i div cols, i mod cols)) [0..<rows * cols]"
  by (simp add: grid_def grid_rows_eq row_major_concat)

lemma room_inner_eq:
  "room_inner i j items = items @ map (\<lambda>j. (i, j)) [j..<16]"
proof (induction i j items rule: room_inner.induct)
  case (1 i j items)
  show ?case
  proof (cases "j < 16")
    case True
    then show ?thesis
      using "1.IH" by (subst room_inner.simps) (simp add: upt_conv_Cons)
  next
    case False
    then show ?thesis
      by (subst room_inner.simps) simp
  qed
qed

lemma room_outer_eq:
  "room_outer i items = items @ concat (map (\<lambda>i. map (\<lambda>j. (i, j)) [0..<16]) [i..<16])"
proof (induction i items rule: room_outer.induct)
  case (1 i items)
  show ?case
  proof (cases "i < 16")
    case True
    then show ?thesis
      using "1.IH" by (subst room_outer.simps) (simp add: upt_conv_Cons room_inner_eq)
  next
    case False
    then show ?thesis
      by (subst room_outer.simps) simp
  qed
qed

lemma room_grid_eq: "room_grid = grid 16 16"
  by (simp only: room_grid_def room_outer_eq grid_def grid_rows_eq)

section \<open>Steps of the animation\<close>

lemma mount_effect: "animate_effect a (mount a) = mount a"
  by (simp add: animate_effect_def mount_def Let_def)

lemma timeRef_animate_effect: "timeRef (animate_effect a s) = timeRef s"
  by (simp add: animate_effect_def Let_def)

lemma elevation_disable: "elevation (animate_effect False s) = 0"
  by (simp add: animate_effect_def Let_def)

lemma animateRef_animate_effect: "animateRef (animate_effect a s) = a"
  by (simp add: animate_effect_def Let_def)

lemma idle_flat_step: "idle_flat s \<Longrightarrow> idle_flat (step x s e)"
  by (cases e) (auto simp: idle_flat_def animate_effect_def tick_def Let_def)

lemma idle_flat_run: "idle_flat s \<Longrightarrow> idle_flat (run x s events)"
  unfolding run_def
  by (induction events arbitrary: s) (simp_all add: idle_flat_step)

lemma idle_flat_mount: "idle_flat (mount a)"
  by (simp add: idle_flat_def mount_def)

lemma tick_running_timeRef: "animateRef s \<Longrightarrow> timeRef (tick x s) = timeRef s + 0.1"
  by (simp add: tick_def Let_def)

lemma tick_running_elevation: "animateRef s \<Longrightarrow> elevation (tick x s) = 16 * cos (timeRef s + 0.1 - x)"
  by (simp add: tick_def Let_def)

lemma tick_running_animateRef: "animateRef s \<Longrightarrow> animateRef (tick x s)"
  by (simp add: tick_def Let_def)

lemma run_Nil: "run x s [] = s"
  by (simp add: run_def)

lemma run_Cons: "run x s (e # events) = run x (step x s e) events"
  by (simp add: run_def)

section \<open>Exact double computations\<close>












section \<open>Projection theorems\<close>






section \<open>Slicer theorems\<close>

text \<open>
  C1. The claim: slicing fails whenever the frame size does not divide the width or the
  height, as at 180 by 100 with frame size 18. The check of the code is \<open>!cols || !rows\<close>
  on the floored quotients, so it throws only when the frame size exceeds a dimension.
  At 180 by 100 with frame size 18 (100 mod 18 = 10) the code throws nothing and sets
  the 10 by 5 = 50 frames of the five complete rows.
\<close>

theorem slice_180_100_18_returns_frames:
  "(100::nat) mod 18 \<noteq> 0
   \<and> (\<exists>frames. slice 180 100 18 = Some (Inr frames) \<and> length frames = 50
        \<and> frames ! 0 = Rectangle 0 0 18 18 \<and> frames ! 49 = Rectangle 162 72 18 18)"
  by (simp add: slice_success)

text \<open>
  C5. When the frame size divides both dimensions of a sheet with positive dimensions,
  slicing succeeds with exactly \<open>(width / frameSize) * (height / frameSize)\<close> frames
  in row-major order: the frame of index \<open>row * cols + col\<close> has offset
  \<open>(col * frameSize, row * frameSize)\<close> and size \<open>(frameSize, frameSize)\<close>. The witness is
  the 180 by 180 sheet with frame size 18: 100 frames, frame 0 at (0, 0), frame 99 at
  (162, 162).
\<close>

theorem slice_divisible:
  assumes "0 < width" and "0 < height" and "0 < frameSize"
    and "width mod frameSize = 0" and "height mod frameSize = 0"
  shows "\<exists>frames. slice width height frameSize = Some (Inr frames)
     \<and> length frames = (width div frameSize) * (height div frameSize)
     \<and> (\<forall>row col. row < height div frameSize \<and> col < width div frameSize \<longrightarrow>
           frames ! (row * (width div frameSize) + col) =
             Rectangle (col * frameSize) (row * frameSize) frameSize frameSize)"
proof -
  let ?cols = "width div frameSize" and ?rows = "height div frameSize"
  let ?frames = "map (\<lambda>i. Rectangle (i mod ?cols * frameSize) (i div ?cols * frameSize)
                         frameSize frameSize) [0..<?rows * ?cols]"
  have "frameSize dvd width" and "frameSize dvd height"
    using assms(4,5) by (simp_all add: dvd_eq_mod_eq_0)
  then have "frameSize \<le> width" and "frameSize \<le> height"
    using assms(1,2) by (simp_all add: dvd_imp_le)
  then have res: "slice width height frameSize = Some (Inr ?frames)"
    using assms(3) by (simp add: slice_success)
  have len: "length ?frames = ?cols * ?rows"
    by (simp add: mult.commute)
  have nth: "?frames ! (row * ?cols + col) =
      Rectangle (col * frameSize) (row * frameSize) frameSize frameSize"
    if "row < ?rows" and "col < ?cols" for row col
  proof -
    have "row * ?cols + col < ?rows * ?cols"
      using that by (rule row_major_index)
    then show ?thesis
      using that(2) by simp
  qed
  show ?thesis
    using res len nth by blast
qed

theorem slice_divisible_witness:
  "(0::nat) < 180 \<and> (0::nat) < 18 \<and> (180::nat) mod 18 = 0
   \<and> (\<exists>frames. slice 180 180 18 = Some (Inr frames) \<and> length frames = 100
        \<and> frames ! 0 = Rectangle 0 0 18 18 \<and> frames ! 99 = Rectangle 162 162 18 18)"
proof -
  obtain frames where res: "slice 180 180 18 = Some (Inr frames)"
    and len: "length frames = 180 div 18 * (180 div 18)"
    and nth: "\<And>row col. row < 180 div 18 \<Longrightarrow> col < 180 div 18 \<Longrightarrow>
        frames ! (row * (180 div 18) + col) = Rectangle (col * 18) (row * 18) 18 18"
    using slice_divisible [of 180 180 18] by auto
  have "frames ! 0 = Rectangle 0 0 18 18"
    using nth [of 0 0] by simp
  moreover have "frames ! 99 = Rectangle 162 162 18 18"
    using nth [of 9 9] by simp
  ultimately show ?thesis
    using res len by simp
qed

text \<open>
  C9. Every frame the slicer produces lies inside the sheet, whether or not the frame
  size divides the dimensions: it is the frame of some column below
  \<open>width div frameSize\<close> and some row below \<open>height div frameSize\<close>, and its right and
  bottom edges are within the width and the height. The witness is a 40 by 25 sheet with
  frame size 18, which neither dimension is a multiple of.
\<close>

theorem slice_frames_in_bounds:
  assumes "slice width height frameSize = Some (Inr frames)" and "r \<in> set frames"
  shows "rect_x r + rect_width r \<le> width \<and> rect_y r + rect_height r \<le> height
     \<and> (\<exists>row col. row < height div frameSize \<and> col < width div frameSize
          \<and> r = Rectangle (col * frameSize) (row * frameSize) frameSize frameSize
          \<and> col * frameSize + frameSize \<le> width \<and> row * frameSize + frameSize \<le> height)"
proof -
  let ?cols = "width div frameSize" and ?rows = "height div frameSize"
  have pos: "0 < frameSize"
    using assms(1) by (auto simp: slice_def split: if_splits)
  have nz: "?cols \<noteq> 0" "?rows \<noteq> 0"
    using assms(1) pos by (auto simp: slice_def Let_def split: if_splits)
  have "frames = map (\<lambda>i. Rectangle (i mod ?cols * frameSize) (i div ?cols * frameSize)
                         frameSize frameSize) [0..<?rows * ?cols]"
    using assms(1) pos nz by (simp add: slice_def Let_def slice_rows_row_major)
  then obtain i where i: "i < ?rows * ?cols"
    and r: "r = Rectangle (i mod ?cols * frameSize) (i div ?cols * frameSize) frameSize frameSize"
    using assms(2) by auto
  have col: "i mod ?cols < ?cols"
    using nz(1) by simp
  have row: "i div ?cols < ?rows"
    using i by (simp add: less_mult_imp_div_less)
  have "i mod ?cols * frameSize + frameSize = Suc (i mod ?cols) * frameSize"
    by simp
  also have "\<dots> \<le> ?cols * frameSize"
    using col by (intro mult_le_mono1) simp
  also have "\<dots> \<le> width"
    by simp
  finally have x: "i mod ?cols * frameSize + frameSize \<le> width" .
  have "i div ?cols * frameSize + frameSize = Suc (i div ?cols) * frameSize"
    by simp
  also have "\<dots> \<le> ?rows * frameSize"
    using row by (intro mult_le_mono1) simp
  also have "\<dots> \<le> height"
    by simp
  finally have y: "i div ?cols * frameSize + frameSize \<le> height" .
  show ?thesis
    using r row col x y by auto
qed

theorem slice_frames_in_bounds_witness:
  "slice 40 25 18 = Some (Inr [Rectangle 0 0 18 18, Rectangle 18 0 18 18])
   \<and> Rectangle 18 0 18 18 \<in> set [Rectangle 0 0 18 18, Rectangle 18 0 18 18]
   \<and> (40::nat) mod 18 \<noteq> 0 \<and> (25::nat) mod 18 \<noteq> 0
   \<and> rect_x (Rectangle 18 0 18 18) + rect_width (Rectangle 18 0 18 18) \<le> 40
   \<and> rect_y (Rectangle 18 0 18 18) + rect_height (Rectangle 18 0 18 18) \<le> 25"
proof -
  have res: "slice 40 25 18 = Some (Inr [Rectangle 0 0 18 18, Rectangle 18 0 18 18])"
    by (simp add: slice_success upt_rec)
  have mem: "Rectangle 18 0 18 18 \<in> set [Rectangle 0 0 18 18, Rectangle 18 0 18 18]"
    by simp
  show ?thesis
    using res mem slice_frames_in_bounds [OF res mem] by simp
qed

section \<open>Grid theorem\<close>

text \<open>
  C6. For all natural numbers \<open>rows\<close> and \<open>cols\<close> the grid is the list of the
  \<open>rows * cols\<close> pairs \<open>(row, col)\<close> in row-major order, the columns varying fastest:
  the element of index \<open>row * cols + col\<close> is \<open>(row, col)\<close>. With zero rows or zero
  columns it is the empty list. The 16 by 16 grid has 256 pairs, the first \<open>(0, 0)\<close> and
  the last \<open>(15, 15)\<close>, and it is the grid the game room builds.
\<close>

theorem grid_enumerates_row_major:
  "grid rows cols = map (\<lambda>i. (i div cols, i mod cols)) [0..<rows * cols]
   \<and> length (grid rows cols) = rows * cols
   \<and> (\<forall>r c. r < rows \<and> c < cols \<longrightarrow> grid rows cols ! (r * cols + c) = (r, c))
   \<and> grid 0 cols = [] \<and> grid rows 0 = []
   \<and> length (grid 16 16) = 256 \<and> grid 16 16 ! 0 = (0, 0) \<and> grid 16 16 ! 255 = (15, 15)
   \<and> room_grid = grid 16 16"
proof -
  have nth: "grid rows cols ! (r * cols + c) = (r, c)" if "r < rows" and "c < cols" for r c
  proof -
    have "r * cols + c < rows * cols"
      using that by (rule row_major_index)
    then show ?thesis
      using that(2) by (simp add: grid_row_major)
  qed
  have "grid 16 16 ! 0 = (0, 0)" and "grid 16 16 ! 255 = (15, 15)"
    by (simp_all add: grid_row_major)
  then show ?thesis
    using nth by (simp add: grid_row_major room_grid_eq)
qed

theorem grid_enumerates_row_major_witness:
  "(2::nat) < 6 \<and> (3::nat) < 8 \<and> length (grid 6 8) = 48 \<and> grid 6 8 ! 19 = (2, 3)"
proof -
  have "grid 6 8 ! (2 * 8 + 3) = (2, 3)" and "length (grid 6 8) = 6 * 8"
    using grid_enumerates_row_major [of 6 8] by simp_all
  then show ?thesis
    by simp
qed

section \<open>Frame selection theorem\<close>

text \<open>
  C10. Selecting the active frame never reads outside the list. For a non-empty list of
  \<open>n\<close> textures and every integer frame index, the index used in sheet mode is
  \<open>max 0 (min frameIndex (n - 1))\<close>, it lies in \<open>[0, n)\<close> and the texture at it is
  returned; the other modes return the first texture. For the empty list the result is
  \<open>null\<close>. In no case is the result the \<open>undefined\<close> of an out-of-range read.
\<close>

theorem activeTexture_in_bounds:
  "activeTexture m textures frameIndex \<noteq> Undefined
   \<and> (textures = [] \<longrightarrow> activeTexture m textures frameIndex = Null)
   \<and> (textures \<noteq> [] \<longrightarrow>
        (let index = max 0 (min frameIndex (int (length textures) - 1))
         in 0 \<le> index \<and> index < int (length textures)
            \<and> activeTexture Sheet textures frameIndex = Value (textures ! nat index)
            \<and> (m \<noteq> Sheet \<longrightarrow> activeTexture m textures frameIndex = Value (textures ! 0))))"
proof (cases "textures = []")
  case True
  then show ?thesis
    by (simp add: activeTexture_def)
next
  case False
  then have len: "0 < int (length textures)"
    by simp
  let ?index = "max 0 (min frameIndex (int (length textures) - 1))"
  have range: "0 \<le> ?index" "?index < int (length textures)"
    using len by simp_all
  have sheet: "activeTexture Sheet textures frameIndex = Value (textures ! nat ?index)"
    using False range by (simp add: activeTexture_def array_get_def Let_def)
  have other: "activeTexture m textures frameIndex = Value (textures ! 0)" if "m \<noteq> Sheet"
    using False that by (simp add: activeTexture_def array_get_def)
  have "activeTexture m textures frameIndex \<noteq> Undefined"
    using sheet other by (cases "m = Sheet") simp_all
  then show ?thesis
    using False range sheet other by (simp add: Let_def)
qed

theorem activeTexture_in_bounds_witness:
  "[10, 20, 30 :: nat] \<noteq> [] \<and> Tile \<noteq> Sheet
   \<and> activeTexture Sheet [10, 20, 30 :: nat] 7 = Value 30
   \<and> activeTexture Sheet [10, 20, 30 :: nat] (- 2) = Value 10
   \<and> activeTexture Sheet [10, 20, 30 :: nat] 1 = Value 20
   \<and> activeTexture Tile [10, 20, 30 :: nat] 7 = Value 10
   \<and> activeTexture Sheet ([] :: nat list) 7 = Null"
  using activeTexture_in_bounds [of Sheet "[10, 20, 30 :: nat]" 7]
    activeTexture_in_bounds [of Sheet "[10, 20, 30 :: nat]" "- 2"]
    activeTexture_in_bounds [of Sheet "[10, 20, 30 :: nat]" 1]
    activeTexture_in_bounds [of Tile "[10, 20, 30 :: nat]" 7]
    activeTexture_in_bounds [of Sheet "[] :: nat list" 7]
  by (simp add: Let_def)

section \<open>Animation theorems\<close>

text \<open>
  C2, as stated, fails: the accumulator \<open>timeRef\<close> is written by \<open>tick\<close> only. After
  enable, one tick and disable the tile is idle with the accumulator at 0.1, and after the
  next enable the accumulator is still 0.1 and the following tick takes it to 0.2.
\<close>

theorem idle_phase_nonzero_counterexample:
  "\<not> animateRef (run 0 (mount False) [Enable, Tick, Disable])
   \<and> timeRef (run 0 (mount False) [Enable, Tick, Disable]) \<noteq> 0
   \<and> timeRef (animate_effect False (run 0 (mount False) [Enable, Tick])) \<noteq> 0
   \<and> timeRef (run 0 (mount False) [Enable, Tick, Disable, Enable]) = 0.1
   \<and> timeRef (run 0 (mount False) [Enable, Tick, Disable, Enable, Tick]) = 0.2"
  by (simp add: run_Cons run_Nil mount_def animate_effect_def tick_def Let_def)

text \<open>
  C2, amended. In every state reached from a freshly mounted tile by any sequence of
  enable, disable and tick, the displayed elevation is 0 whenever the tile is idle. The
  disable transition sets the elevation to 0 and stops the animation; it leaves the
  accumulator as it is, and so does enable, which therefore resumes from the value the
  accumulator had before the disable.
\<close>

theorem idle_elevation_zero:
  "(\<not> animateRef (run x (mount a) events) \<longrightarrow> elevation (run x (mount a) events) = 0)
   \<and> elevation (step x s Disable) = 0
   \<and> \<not> animateRef (step x s Disable)
   \<and> timeRef (step x s Disable) = timeRef s
   \<and> timeRef (step x s Enable) = timeRef s
   \<and> animateRef (step x s Enable)"
proof -
  have "idle_flat (run x (mount a) events)"
    by (simp add: idle_flat_run idle_flat_mount)
  then have "\<not> animateRef (run x (mount a) events) \<longrightarrow> elevation (run x (mount a) events) = 0"
    by (auto simp: idle_flat_def)
  then show ?thesis
    by (simp add: timeRef_animate_effect elevation_disable animateRef_animate_effect)
qed

theorem idle_elevation_zero_witness:
  "\<not> animateRef (run 3 (mount False) [Enable, Tick, Tick, Disable])
   \<and> elevation (run 3 (mount False) [Enable, Tick, Tick, Disable]) = 0
   \<and> timeRef (run 3 (mount False) [Enable, Tick, Tick, Disable]) = 0.2"
proof -
  have idle: "\<not> animateRef (run 3 (mount False) [Enable, Tick, Tick, Disable])"
    by (simp add: run_Cons run_Nil animateRef_animate_effect)
  have "timeRef (run 3 (mount False) [Enable, Tick, Tick, Disable]) = 0.2"
    by (simp add: run_Cons run_Nil mount_def animate_effect_def tick_def Let_def)
  then show ?thesis
    using idle idle_elevation_zero [of 3 False "[Enable, Tick, Tick, Disable]"] by simp
qed

text \<open>
  C8. While the tile is running, a tick advances the accumulator by exactly 0.1 and sets
  the elevation of the tile at column \<open>col\<close> to \<open>16 * cos (phase - col)\<close>, where \<open>phase\<close>
  is the advanced accumulator, and the tile stays running. Starting idle, after enable
  and five ticks the accumulator is 0.5. (Exact real arithmetic.)
\<close>

theorem tick_advances_phase:
  "(animateRef s \<longrightarrow>
      timeRef (tick (of_int col) s) = timeRef s + 0.1
      \<and> elevation (tick (of_int col) s) = 16 * cos (timeRef (tick (of_int col) s) - of_int col)
      \<and> animateRef (tick (of_int col) s))
   \<and> timeRef (run (of_int col) (mount False) [Enable, Tick, Tick, Tick, Tick, Tick]) = 0.5
   \<and> animateRef (run (of_int col) (mount False) [Enable, Tick, Tick, Tick, Tick, Tick])"
proof -
  have "timeRef (run (of_int col) (mount False) [Enable, Tick, Tick, Tick, Tick, Tick]) = 0.5
     \<and> animateRef (run (of_int col) (mount False) [Enable, Tick, Tick, Tick, Tick, Tick])"
    by (simp add: run_Cons run_Nil mount_def animate_effect_def tick_def Let_def)
  then show ?thesis
    by (simp add: tick_running_timeRef tick_running_elevation tick_running_animateRef)
qed

theorem tick_advances_phase_witness:
  "animateRef (mount True)
   \<and> timeRef (tick (of_int 3) (mount True)) = 0.1
   \<and> elevation (tick (of_int 3) (mount True)) = 16 * cos (0.1 - of_int 3)"
proof -
  have running: "animateRef (mount True)" and zero: "timeRef (mount True) = 0"
    by (simp_all add: mount_def)
  note tick3 = tick_advances_phase [of "mount True" 3]
  have phase: "timeRef (tick (of_int 3) (mount True)) = 0.1"
    using tick3 running zero by simp
  have "elevation (tick (of_int 3) (mount True)) =
      16 * cos (timeRef (tick (of_int 3) (mount True)) - of_int 3)"
    using tick3 running by blast
  then have "elevation (tick (of_int 3) (mount True)) = 16 * cos (0.1 - of_int 3)"
    by (simp only: phase)
  then show ?thesis
    using running phase by blast
qed

end
